theory Spec2Isabelle
  imports Main "HOL-Library.Sublist"
begin

section \<open>Python strings and slices\<close>

text \<open>
  A Python \<open>str\<close> is a sequence of Unicode code points. The bot works on Cyrillic text and
  \<open>str.strip\<close> removes Unicode whitespace, so a string is modelled as the list of its code
  points (natural numbers), not as a list of bytes.
\<close>

type_synonym pystr = "nat list"

definition ascii :: "string \<Rightarrow> pystr" where
  "ascii s = map of_char s"

definition comma :: nat where
  "comma = 44"

text \<open>
  The code points for which \<open>str.isspace\<close> holds, which are those that \<open>str.strip()\<close>
  removes: the ASCII controls 9 to 13 and 28 to 31, the space, U+0085, U+00A0, U+1680,
  U+2000 to U+200A, U+2028, U+2029, U+202F, U+205F and U+3000.
\<close>

definition isspace :: "nat \<Rightarrow> bool" where
  "isspace c = (c \<in> set [9, 10, 11, 12, 13, 28, 29, 30, 31, 32, 133, 160, 5760,
     8192, 8193, 8194, 8195, 8196, 8197, 8198, 8199, 8200, 8201, 8202,
     8232, 8233, 8239, 8287, 12288])"

text \<open>\<open>s.strip()\<close>: leading and trailing whitespace removed.\<close>

definition py_strip :: "pystr \<Rightarrow> pystr" where
  "py_strip s = rev (dropWhile isspace (rev (dropWhile isspace s)))"

text \<open>
  \<open>s.split(sep)\<close> for a one-character separator: the pieces between the separators, in
  order; the empty string gives one empty piece.
\<close>

fun py_split :: "'a \<Rightarrow> 'a list \<Rightarrow> 'a list list" where
  "py_split sep [] = [[]]"
| "py_split sep (c # cs) =
     (if c = sep then [] # py_split sep cs
      else (case py_split sep cs of
              [] \<Rightarrow> [[c]]
            | p # ps \<Rightarrow> (c # p) # ps))"

text \<open>\<open>sep.join(xs)\<close>.\<close>

fun py_join :: "'a list \<Rightarrow> 'a list list \<Rightarrow> 'a list" where
  "py_join sep [] = []"
| "py_join sep [x] = x"
| "py_join sep (x # y # ys) = x @ sep @ py_join sep (y # ys)"

text \<open>
  The slices \<open>xs[i:]\<close> and \<open>xs[:i]\<close>: a negative index counts from the end, and an index
  out of range is clamped, never an error.
\<close>

definition slice_from :: "'a list \<Rightarrow> int \<Rightarrow> 'a list" where
  "slice_from xs i =
     (let n = int (length xs);
          j = (if i < 0 then max (n + i) 0 else min i n)
      in drop (nat j) xs)"

definition slice_upto :: "'a list \<Rightarrow> int \<Rightarrow> 'a list" where
  "slice_upto xs i =
     (let n = int (length xs);
          j = (if i < 0 then max (n + i) 0 else min i n)
      in take (nat j) xs)"

section \<open>The chat bot (chatbot.py)\<close>

subsection \<open>Data\<close>

text \<open>
  A message is the dictionary \<open>{"role": ..., "content": ...}\<close>; the code builds the three
  roles \<open>"system"\<close>, \<open>"user"\<close> and \<open>"assistant"\<close> only.
\<close>

datatype role = System | User | Assistant

record message =
  role :: role
  content :: pystr

text \<open>
  \<open>user_profile\<close> is a dictionary that is either \<open>{}\<close> or holds the keys \<open>"name"\<close> (a
  string) and \<open>"context_items"\<close> (a list of strings); it is read with \<open>dict.get\<close> and a
  default for each key. An absent key is \<open>None\<close>.
\<close>

record profile_dict =
  name_entry :: "pystr option"
  context_items_entry :: "pystr list option"

definition empty_dict :: profile_dict where
  "empty_dict = \<lparr>name_entry = None, context_items_entry = None\<rparr>"

text \<open>The truth value of a dictionary: \<open>not d\<close> holds for the empty one only.\<close>

definition dict_is_empty :: "profile_dict \<Rightarrow> bool" where
  "dict_is_empty d = (name_entry d = None \<and> context_items_entry d = None)"

text \<open>The attributes of a \<open>ChatBot\<close>; the API client is the collaborator below.\<close>

record chatbot =
  model :: pystr
  max_exchanges :: int
  user_profile :: profile_dict
  history :: "message list"

definition DEFAULT_MAX_EXCHANGES :: int where
  "DEFAULT_MAX_EXCHANGES = 7"

definition init :: "pystr \<Rightarrow> int \<Rightarrow> chatbot" where
  "init mdl mx =
     \<lparr>model = mdl, max_exchanges = mx, user_profile = empty_dict, history = []\<rparr>"

text \<open>
  One call of \<open>client.chat.completions.create(model=..., messages=...)\<close> followed by
  \<open>response.choices[0].message.content\<close>: either the answer, a string (\<open>Inr\<close>), or an
  exception, of which the code uses \<open>str(e)\<close> only (\<open>Inl\<close>). The arguments are the model
  name and the messages; the outcome may differ from one call to the next, so each call
  of \<open>get_response\<close> takes the collaborator as it behaves then.
\<close>

type_synonym client = "pystr \<Rightarrow> message list \<Rightarrow> pystr + pystr"

datatype error = ConnectionError pystr

subsection \<open>The literals of the source, as code points\<close>

text \<open>The content of the generic system message (line 88).\<close>

definition generic_content :: pystr where
  "generic_content = [1058, 1099, 32, 8212, 32, 1087, 1086, 1083, 1077, 1079, 1085, 1099,
     1081, 32, 1072, 1089, 1089, 1080, 1089, 1090, 1077, 1085, 1090, 46]"

text \<open>The defaults of the two \<open>get\<close> calls (lines 90 and 93).\<close>

definition name_default :: pystr where
  "name_default = [1085, 1077, 32, 1091, 1082, 1072, 1079, 1072, 1085, 1086]"

definition context_placeholder :: pystr where
  "context_placeholder = [1085, 1077, 32, 1091, 1082, 1072, 1079, 1072, 1085, 1072]"

text \<open>The f-string of lines 96 to 98, cut at its two fields.\<close>

definition prompt_head :: pystr where
  "prompt_head = [1058, 1099, 32, 8212, 32, 1072, 1089, 1089, 1080, 1089, 1090, 1077, 1085,
     1090, 46, 32, 1042, 1077, 1076, 1080, 32, 1076, 1080, 1072, 1083, 1086, 1075, 44, 32,
     1089, 1090, 1088, 1086, 1075, 1086, 32, 1091, 1095, 1080, 1090, 1099, 1074, 1072, 1103,
     32, 1089, 1083, 1077, 1076, 1091, 1102, 1097, 1080, 1077, 32, 1076, 1072, 1085, 1085,
     1099, 1077, 32, 1086, 32, 1087, 1086, 1083, 1100, 1079, 1086, 1074, 1072, 1090, 1077,
     1083, 1077, 46, 32, 1048, 1084, 1103, 58, 32]"

definition prompt_middle :: pystr where
  "prompt_middle = [46, 32, 1050, 1083, 1102, 1095, 1077, 1074, 1072, 1103, 32, 1080, 1085,
     1092, 1086, 1088, 1084, 1072, 1094, 1080, 1103, 32, 1086, 32, 1085, 1077, 1084, 32, 40,
     1080, 1085, 1090, 1077, 1088, 1077, 1089, 1099, 44, 32, 1092, 1072, 1082, 1090, 1099,
     41, 58, 32]"

definition prompt_tail :: pystr where
  "prompt_tail = [46, 32, 1042, 1089, 1077, 1075, 1076, 1072, 32, 1086, 1073, 1088, 1072,
     1097, 1072, 1081, 1089, 1103, 32, 1082, 32, 1087, 1086, 1083, 1100, 1079, 1086, 1074,
     1072, 1090, 1077, 1083, 1102, 32, 1087, 1086, 32, 1080, 1084, 1077, 1085, 1080, 46, 32,
     1040, 1076, 1072, 1087, 1090, 1080, 1088, 1091, 1081, 32, 1086, 1090, 1074, 1077, 1090,
     1099, 32, 1087, 1086, 1076, 32, 1077, 1075, 1086, 32, 1080, 1085, 1090, 1077, 1088,
     1077, 1089, 1099, 44, 32, 1077, 1089, 1083, 1080, 32, 1101, 1090, 1086, 32, 1091, 1084,
     1077, 1089, 1090, 1085, 1086, 46]"

text \<open>The error message of lines 146 to 148, cut at its two fields.\<close>

definition error_head :: pystr where
  "error_head = [1054, 1096, 1080, 1073, 1082, 1072, 32, 1087, 1088, 1080, 32, 1086, 1073,
     1088, 1072, 1097, 1077, 1085, 1080, 1080, 32, 1082, 32, 1084, 1086, 1076, 1077, 1083,
     1080, 58, 32]"

definition error_middle :: pystr where
  "error_middle = [10, 1059, 1073, 1077, 1076, 1080, 1090, 1077, 1089, 1100, 44, 32, 1095,
     1090, 1086, 32, 79, 108, 108, 97, 109, 97, 32, 1079, 1072, 1087, 1091, 1097, 1077, 1085,
     32, 40, 100, 111, 99, 107, 101, 114, 32, 115, 116, 97, 114, 116, 32, 111, 108, 108, 97,
     109, 97, 41, 32, 1080, 32, 1084, 1086, 1076, 1077, 1083, 1100, 32]"

definition error_tail :: pystr where
  "error_tail = [32, 1079, 1072, 1075, 1088, 1091, 1078, 1077, 1085, 1072, 46]"

subsection \<open>The methods\<close>

text \<open>\<open>set_user_profile\<close> (lines 66 to 74): the comprehension, then the new dictionary.\<close>

definition set_user_profile :: "chatbot \<Rightarrow> pystr \<Rightarrow> pystr \<Rightarrow> chatbot" where
  "set_user_profile self name context_info_str =
     (let context_items =
            map py_strip
              (filter (\<lambda>item. py_strip item \<noteq> []) (py_split comma context_info_str))
      in self\<lparr>user_profile :=
                \<lparr>name_entry = Some name, context_items_entry = Some context_items\<rparr>\<rparr>)"

text \<open>\<open>_create_system_prompt\<close> (lines 87 to 100); it reads the profile and changes nothing.\<close>

definition create_system_prompt :: "chatbot \<Rightarrow> message" where
  "create_system_prompt self =
     (if dict_is_empty (user_profile self)
      then \<lparr>role = System, content = generic_content\<rparr>
      else
        let name = (case name_entry (user_profile self) of
                      Some n \<Rightarrow> n | None \<Rightarrow> name_default);
            context_items = (case context_items_entry (user_profile self) of
                               Some xs \<Rightarrow> xs | None \<Rightarrow> []);
            context_str = (if context_items \<noteq> [] then py_join (ascii '', '') context_items
                           else context_placeholder);
            prompt = prompt_head @ name @ prompt_middle @ context_str @ prompt_tail
        in \<lparr>role = System, content = prompt\<rparr>)"

text \<open>Lines 128 and 129 of \<open>get_response\<close>: the user message is appended, then the slice.\<close>

definition append_user :: "chatbot \<Rightarrow> pystr \<Rightarrow> chatbot" where
  "append_user self user_input =
     (let self = self\<lparr>history := history self @ [\<lparr>role = User, content = user_input\<rparr>]\<rparr>
      in self\<lparr>history := slice_from (history self) (- max_exchanges self * 2)\<rparr>)"

text \<open>Lines 131 and 132: the list sent to the model.\<close>

definition messages_to_send :: "chatbot \<Rightarrow> message list" where
  "messages_to_send self = [create_system_prompt self] @ history self"

text \<open>Line 144, the first statement of the exception handler.\<close>

definition rollback_last :: "chatbot \<Rightarrow> chatbot" where
  "rollback_last self = self\<lparr>history := slice_upto (history self) (- 1)\<rparr>"

text \<open>
  \<open>get_response\<close> (lines 128 to 150): the result is the answer or the raised
  \<open>ConnectionError\<close>, together with the bot as the call leaves it.
\<close>

definition get_response :: "client \<Rightarrow> chatbot \<Rightarrow> pystr \<Rightarrow> (error + pystr) \<times> chatbot" where
  "get_response cl self user_input =
     (let self = append_user self user_input
      in case cl (model self) (messages_to_send self) of
           Inr answer \<Rightarrow>
             (Inr answer,
              self\<lparr>history := history self @ [\<lparr>role = Assistant, content = answer\<rparr>]\<rparr>)
         | Inl e \<Rightarrow>
             (let self = rollback_last self;
                  error_msg = error_head @ e @ error_middle @ model self @ error_tail
              in (Inl (ConnectionError error_msg), self)))"

text \<open>\<open>clear_history\<close> (line 158).\<close>

definition clear_history :: "chatbot \<Rightarrow> chatbot" where
  "clear_history self = self\<lparr>history := []\<rparr>"

text \<open>
  The words of the specification for the context items: the pieces between the commas, each
  trimmed, the empty ones discarded.
\<close>

definition spec_context_items :: "pystr \<Rightarrow> pystr list" where
  "spec_context_items raw = filter (\<lambda>p. p \<noteq> []) (map py_strip (py_split comma raw))"

subsection \<open>Collaborators and sessions\<close>

text \<open>Two completion collaborators: one that answers every request, one that fails it.\<close>

definition answering :: "pystr \<Rightarrow> client" where
  "answering a = (\<lambda>mdl msgs. Inr a)"

definition failing :: "pystr \<Rightarrow> client" where
  "failing e = (\<lambda>mdl msgs. Inl e)"

text \<open>
  A run of successful exchanges: each pair is a user input and the answer the model gave
  to it.
\<close>

fun exchanges :: "chatbot \<Rightarrow> (pystr \<times> pystr) list \<Rightarrow> chatbot" where
  "exchanges self [] = self"
| "exchanges self ((user_input, answer) # rest) =
     exchanges (snd (get_response (answering answer) self user_input)) rest"

text \<open>The public methods of a bot, and a session as their calls in order.\<close>

datatype call =
    SetUserProfile pystr pystr
  | GetResponse client pystr
  | ClearHistory

fun do_call :: "chatbot \<Rightarrow> call \<Rightarrow> chatbot" where
  "do_call self (SetUserProfile name context_info_str) =
     set_user_profile self name context_info_str"
| "do_call self (GetResponse cl user_input) = snd (get_response cl self user_input)"
| "do_call self ClearHistory = clear_history self"

definition session :: "chatbot \<Rightarrow> call list \<Rightarrow> chatbot" where
  "session self calls = foldl do_call self calls"

section \<open>The command line (cli.py)\<close>

text \<open>
  What the loop prints: the notice of an empty history, the frame and the lines of
  \<open>show_history\<close>, an answer, an error message, the closing notice. The prompts of
  \<open>input\<close> are left out.
\<close>

datatype printed =
    HistoryEmpty
  | HistoryHeader
  | UserLine pystr
  | BotLine pystr
  | HistoryFooter
  | BotAnswer pystr
  | ErrorMessage pystr
  | SessionEnd

text \<open>\<open>show_history\<close> (lines 33 to 51): it prints and changes nothing.\<close>

fun history_lines :: "message list \<Rightarrow> printed list" where
  "history_lines [] = []"
| "history_lines (m # ms) =
     (if role m = User then UserLine (content m) # history_lines ms
      else if role m = Assistant then BotLine (content m) # history_lines ms
      else history_lines ms)"

definition show_history :: "chatbot \<Rightarrow> printed list" where
  "show_history cbot =
     (if history cbot = [] then [HistoryEmpty]
      else [HistoryHeader] @ history_lines (history cbot) @ [HistoryFooter])"

text \<open>
  \<open>user_text.lower() in ["q", "quit"]\<close>. Of all code points only \<open>Q\<close>, \<open>U\<close>, \<open>I\<close>, \<open>T\<close> and
  their small letters are lowered to a character of \<open>"quit"\<close>, and \<open>str.lower\<close> never
  shortens a string, so lowering the capital Latin letters decides the test.
\<close>

definition lower_latin :: "pystr \<Rightarrow> pystr" where
  "lower_latin s = map (\<lambda>c. if 65 \<le> c \<and> c \<le> 90 then c + 32 else c) s"

definition is_quit :: "pystr \<Rightarrow> bool" where
  "is_quit user_text = (lower_latin user_text \<in> set [ascii ''q'', ascii ''quit''])"

text \<open>
  One pass through the body of the loop of \<open>run_chat_loop\<close> (lines 61 to 79) on the line
  read: \<open>None\<close> is the \<open>break\<close>, otherwise what was printed and the bot as the pass leaves
  it. The collaborator is the model's behaviour at that moment.
\<close>

definition loop_body :: "chatbot \<Rightarrow> pystr \<Rightarrow> client \<Rightarrow> (printed list \<times> chatbot) option" where
  "loop_body cbot user_text cl =
     (if is_quit user_text then None
      else if py_strip user_text = ascii ''/history'' then Some (show_history cbot, cbot)
      else if py_strip user_text = [] then Some ([], cbot)
      else (case get_response cl cbot user_text of
              (Inr response, cbot') \<Rightarrow> Some ([BotAnswer response], cbot')
            | (Inl (ConnectionError e), cbot') \<Rightarrow> Some ([ErrorMessage e], cbot')))"

text \<open>
  \<open>run_chat_loop\<close> on the lines typed, each with the model's behaviour at that moment; the
  end of the input is the \<open>EOFError\<close> (or the interrupt), which prints the closing notice.
\<close>

fun run_chat_loop :: "chatbot \<Rightarrow> (pystr \<times> client) list \<Rightarrow> printed list \<times> chatbot" where
  "run_chat_loop cbot [] = ([SessionEnd], cbot)"
| "run_chat_loop cbot ((user_text, cl) # rest) =
     (case loop_body cbot user_text cl of
        None \<Rightarrow> ([], cbot)
      | Some (out, cbot') \<Rightarrow>
          (case run_chat_loop cbot' rest of (outs, cbot'') \<Rightarrow> (out @ outs, cbot'')))"

section \<open>Sessions used as examples\<close>

text \<open>\<open>ChatBot()\<close> with its default arguments.\<close>

definition default_bot :: chatbot where
  "default_bot = init (ascii ''llama3:8b'') DEFAULT_MAX_EXCHANGES"

text \<open>\<open>ChatBot(max_exchanges=1)\<close> after one successful exchange: its window is full.\<close>

definition bot_full :: chatbot where
  "bot_full = exchanges (init (ascii ''llama3:8b'') 1) [(ascii ''hi'', ascii ''hello'')]"

text \<open>\<open>ChatBot(max_exchanges=-1)\<close>: the slice of line 129 drops the first two entries.\<close>

definition bot_negative :: chatbot where
  "bot_negative = init (ascii ''llama3:8b'') (- 1)"

text \<open>The default bot after \<open>set_user_profile("Ana", "chess, hiking,  reading ")\<close>.\<close>

definition bot_ana :: chatbot where
  "bot_ana = set_user_profile default_bot (ascii ''Ana'') (ascii ''chess, hiking,  reading '')"

section \<open>Slices\<close>

lemma slice_from_neg: "0 < k \<Longrightarrow> slice_from xs (- k) = drop (length xs - nat k) xs"
  by (simp add: slice_from_def Let_def max_def nat_diff_distrib')

lemma slice_from_nonneg: "0 \<le> k \<Longrightarrow> slice_from xs k = drop (nat k) xs"
  by (simp add: slice_from_def Let_def min_def)

lemma slice_upto_minus_one: "slice_upto xs (- 1) = butlast xs"
  by (cases xs rule: rev_cases) (simp_all add: slice_upto_def Let_def max_def)

lemma butlast_drop_snoc: "k \<le> length xs \<Longrightarrow> butlast (drop k (xs @ [x])) = drop k xs"
  by (simp add: butlast_drop)

section \<open>The steps of \<open>get_response\<close>\<close>

lemma append_user_frame:
  "model (append_user self u) = model self"
  "max_exchanges (append_user self u) = max_exchanges self"
  "user_profile (append_user self u) = user_profile self"
  by (simp_all add: append_user_def Let_def)

lemma history_append_user:
  "history (append_user self u) =
     slice_from (history self @ [\<lparr>role = User, content = u\<rparr>]) (- max_exchanges self * 2)"
  by (simp add: append_user_def Let_def)

lemma history_append_user_pos:
  assumes "1 \<le> max_exchanges self"
  shows "history (append_user self u) =
     drop (length (history self) + 1 - nat (2 * max_exchanges self))
       (history self @ [\<lparr>role = User, content = u\<rparr>])"
proof -
  have "- max_exchanges self * 2 = - (2 * max_exchanges self)" by simp
  moreover have "0 < 2 * max_exchanges self" using assms by simp
  ultimately show ?thesis
    using slice_from_neg [of "2 * max_exchanges self"
        "history self @ [\<lparr>role = User, content = u\<rparr>]"]
    by (simp only: history_append_user length_append list.size add.commute) simp
qed

lemma get_response_ok:
  assumes "cl (model self) (messages_to_send (append_user self u)) = Inr a"
  shows "get_response cl self u =
     (Inr a, (append_user self u)\<lparr>history :=
        history (append_user self u) @ [\<lparr>role = Assistant, content = a\<rparr>]\<rparr>)"
  using assms by (simp add: get_response_def Let_def append_user_frame)

lemma get_response_fail:
  assumes "cl (model self) (messages_to_send (append_user self u)) = Inl e"
  shows "get_response cl self u =
     (Inl (ConnectionError (error_head @ e @ error_middle @ model self @ error_tail)),
      (append_user self u)\<lparr>history := butlast (history (append_user self u))\<rparr>)"
  using assms
  by (simp add: get_response_def Let_def append_user_frame rollback_last_def slice_upto_minus_one)

lemma get_response_frame:
  "model (snd (get_response cl self u)) = model self"
  "max_exchanges (snd (get_response cl self u)) = max_exchanges self"
  "user_profile (snd (get_response cl self u)) = user_profile self"
  by (simp_all add: get_response_def Let_def append_user_frame rollback_last_def
      split: sum.splits)

lemma length_history_append_user:
  assumes "1 \<le> max_exchanges self"
  shows "length (history (append_user self u)) =
     min (length (history self) + 1) (nat (2 * max_exchanges self))"
  using assms by (simp add: history_append_user_pos)

lemma bot_full_eq:
  "bot_full = \<lparr>model = ascii ''llama3:8b'', max_exchanges = 1, user_profile = empty_dict,
     history = [\<lparr>role = User, content = ascii ''hi''\<rparr>,
                \<lparr>role = Assistant, content = ascii ''hello''\<rparr>]\<rparr>"
  by (simp add: bot_full_def get_response_def append_user_def messages_to_send_def
      slice_from_def answering_def Let_def init_def)

section \<open>A failed request\<close>

text \<open>
  C1, as the code has it. With \<open>max_exchanges\<close> at least 1, a call of \<open>get_response\<close> whose
  completion request fails leaves the last \<open>2 * max_exchanges - 1\<close> entries of the history
  it started from. When the history was shorter than \<open>2 * max_exchanges\<close> the bot is
  exactly as before the call; otherwise the truncation that precedes the request has
  dropped the oldest entries and the handler removes the user message only.
\<close>

theorem failure_keeps_window:
  assumes "1 \<le> max_exchanges self"
    and "cl (model self) (messages_to_send (append_user self user_input)) = Inl e"
  shows "history (snd (get_response cl self user_input)) =
           drop (length (history self) + 1 - nat (2 * max_exchanges self)) (history self)
         \<and> (int (length (history self)) + 1 \<le> 2 * max_exchanges self \<longrightarrow>
              snd (get_response cl self user_input) = self)"
proof -
  let ?k = "length (history self) + 1 - nat (2 * max_exchanges self)"
  have k: "?k \<le> length (history self)" using assms(1) by linarith
  have h: "history (snd (get_response cl self user_input)) = drop ?k (history self)"
    using get_response_fail [of cl self user_input e] assms(2)
      history_append_user_pos [OF assms(1), of user_input] butlast_drop_snoc [OF k]
    by simp
  have "snd (get_response cl self user_input) = self"
    if "int (length (history self)) + 1 \<le> 2 * max_exchanges self"
  proof -
    have "?k = 0" using that by linarith
    then have "history (snd (get_response cl self user_input)) = history self"
      using h by simp
    moreover have "snd (get_response cl self user_input) =
        self\<lparr>history := history (snd (get_response cl self user_input))\<rparr>"
      using get_response_fail [of cl self user_input e] assms(2)
      by (simp add: append_user_def Let_def)
    ultimately show ?thesis by simp
  qed
  with h show ?thesis by blast
qed

theorem failure_keeps_window_witness:
  "1 \<le> max_exchanges default_bot
   \<and> failing (ascii ''down'') (model default_bot)
        (messages_to_send (append_user default_bot (ascii ''hi''))) = Inl (ascii ''down'')
   \<and> int (length (history default_bot)) + 1 \<le> 2 * max_exchanges default_bot
   \<and> snd (get_response (failing (ascii ''down'')) default_bot (ascii ''hi'')) = default_bot"
proof -
  have a: "1 \<le> max_exchanges default_bot"
    by (simp add: default_bot_def init_def DEFAULT_MAX_EXCHANGES_def)
  have b: "failing (ascii ''down'') (model default_bot)
        (messages_to_send (append_user default_bot (ascii ''hi''))) = Inl (ascii ''down'')"
    by (simp add: failing_def)
  have c: "int (length (history default_bot)) + 1 \<le> 2 * max_exchanges default_bot"
    by (simp add: default_bot_def init_def DEFAULT_MAX_EXCHANGES_def)
  show ?thesis
    using a b c
      failure_keeps_window [of default_bot "failing (ascii ''down'')" "ascii ''hi''"
        "ascii ''down''"]
    by blast
qed

text \<open>
  C1 as stated fails once the window is full: after one exchange with \<open>max_exchanges = 1\<close>
  a failed request leaves the assistant message alone, without the user message it
  answered.
\<close>

theorem failure_full_window_counterexample:
  "history bot_full = [\<lparr>role = User, content = ascii ''hi''\<rparr>,
                       \<lparr>role = Assistant, content = ascii ''hello''\<rparr>]
   \<and> failing (ascii ''down'') (model bot_full)
         (messages_to_send (append_user bot_full (ascii ''more''))) = Inl (ascii ''down'')
   \<and> history (snd (get_response (failing (ascii ''down'')) bot_full (ascii ''more'')))
       = [\<lparr>role = Assistant, content = ascii ''hello''\<rparr>]
   \<and> history (snd (get_response (failing (ascii ''down'')) bot_full (ascii ''more'')))
       \<noteq> history bot_full"
  by (simp add: bot_full_eq get_response_def append_user_def messages_to_send_def
      rollback_last_def slice_from_def slice_upto_def failing_def Let_def)

section \<open>The size of one turn\<close>

text \<open>
  C3, as the code has it. With \<open>max_exchanges\<close> at least 1, the user message is appended
  and the history cut to its last \<open>2 * max_exchanges\<close> entries; a successful call then adds
  the answer and a failed one removes the last entry. So the length after a call is
  \<open>min (len + 1) (2 * max_exchanges) + 1\<close> on success and
  \<open>min (len + 1) (2 * max_exchanges) - 1\<close> on failure. While the history is shorter than
  \<open>2 * max_exchanges\<close>, this is a growth by exactly 2 on success and no change on failure.
\<close>

theorem turn_length_change:
  assumes "1 \<le> max_exchanges self"
  shows "(case cl (model self) (messages_to_send (append_user self user_input)) of
            Inr answer \<Rightarrow>
              length (history (snd (get_response cl self user_input))) =
                min (length (history self) + 1) (nat (2 * max_exchanges self)) + 1
          | Inl e \<Rightarrow>
              length (history (snd (get_response cl self user_input))) =
                min (length (history self) + 1) (nat (2 * max_exchanges self)) - 1)
         \<and> (int (length (history self)) + 1 \<le> 2 * max_exchanges self \<longrightarrow>
              (case cl (model self) (messages_to_send (append_user self user_input)) of
                 Inr answer \<Rightarrow>
                   length (history (snd (get_response cl self user_input))) =
                     length (history self) + 2
               | Inl e \<Rightarrow>
                   length (history (snd (get_response cl self user_input))) =
                     length (history self)))"
proof (cases "cl (model self) (messages_to_send (append_user self user_input))")
  case (Inl e)
  then show ?thesis
    using get_response_fail [of cl self user_input e]
      length_history_append_user [OF assms, of user_input]
    by auto
next
  case (Inr a)
  then show ?thesis
    using get_response_ok [of cl self user_input a]
      length_history_append_user [OF assms, of user_input]
    by auto
qed

theorem turn_length_change_witness:
  "1 \<le> max_exchanges default_bot
   \<and> int (length (history default_bot)) + 1 \<le> 2 * max_exchanges default_bot
   \<and> length (history (snd (get_response (answering (ascii ''hello'')) default_bot
         (ascii ''hi'')))) = length (history default_bot) + 2
   \<and> length (history (snd (get_response (failing (ascii ''down'')) default_bot
         (ascii ''hi'')))) = length (history default_bot)"
proof -
  have a: "1 \<le> max_exchanges default_bot"
    by (simp add: default_bot_def init_def DEFAULT_MAX_EXCHANGES_def)
  have c: "int (length (history default_bot)) + 1 \<le> 2 * max_exchanges default_bot"
    by (simp add: default_bot_def init_def DEFAULT_MAX_EXCHANGES_def)
  show ?thesis
    using a c
      turn_length_change [OF a, of "answering (ascii ''hello'')" "ascii ''hi''"]
      turn_length_change [OF a, of "failing (ascii ''down'')" "ascii ''hi''"]
    by (simp add: answering_def failing_def)
qed

text \<open>
  C3 as stated fails once the window is full: with \<open>max_exchanges = 1\<close> and two entries
  stored, a successful call leaves three entries (a growth by one) and a failed call
  leaves one.
\<close>

theorem turn_full_window_counterexample:
  "length (history bot_full) = 2
   \<and> fst (get_response (answering (ascii ''ok'')) bot_full (ascii ''more'')) = Inr (ascii ''ok'')
   \<and> length (history (snd (get_response (answering (ascii ''ok'')) bot_full (ascii ''more''))))
       = 3
   \<and> length (history (snd (get_response (failing (ascii ''down'')) bot_full (ascii ''more''))))
       = 1"
  by (simp add: bot_full_eq get_response_def append_user_def messages_to_send_def
      rollback_last_def slice_from_def slice_upto_def failing_def answering_def Let_def)

section \<open>The rolling window\<close>

lemma exchanges_max_exchanges: "max_exchanges (exchanges self xs) = max_exchanges self"
  by (induction self xs rule: exchanges.induct) (simp_all add: get_response_frame)

lemma length_history_answered:
  assumes "1 \<le> max_exchanges self"
  shows "length (history (snd (get_response (answering a) self u))) =
     min (length (history self) + 2) (nat (2 * max_exchanges self) + 1)"
  using get_response_ok [of "answering a" self u a]
    length_history_append_user [OF assms, of u]
  by (simp add: answering_def)

lemma length_history_exchanges:
  assumes "1 \<le> max_exchanges self"
    and "length (history self) \<le> nat (2 * max_exchanges self) + 1"
  shows "length (history (exchanges self xs)) =
     min (length (history self) + 2 * length xs) (nat (2 * max_exchanges self) + 1)"
  using assms
proof (induction self xs rule: exchanges.induct)
  case (1 self)
  then show ?case by simp
next
  case (2 self user_input answer rest)
  let ?s = "snd (get_response (answering answer) self user_input)"
  have m: "max_exchanges ?s = max_exchanges self" by (simp add: get_response_frame)
  have l: "length (history ?s) =
      min (length (history self) + 2) (nat (2 * max_exchanges self) + 1)"
    using length_history_answered [OF "2.prems"(1)] .
  have "length (history (exchanges ?s rest)) =
      min (length (history ?s) + 2 * length rest) (nat (2 * max_exchanges ?s) + 1)"
  proof -
    have "length (history ?s) \<le> nat (2 * max_exchanges ?s) + 1"
      using l m by simp
    then show ?thesis
      using "2.IH" "2.prems"(1) m by simp
  qed
  then show ?case unfolding m l by (auto simp: min_def)
qed

text \<open>
  C4, as the code has it. With \<open>max_exchanges\<close> at least 1 and a history that starts empty,
  after \<open>n - 1\<close> successful exchanges the user message of the \<open>n\<close>-th is appended and the
  history truncated: its length is then \<open>min (2 * n - 1) (2 * max_exchanges)\<close>. Below, the
  list \<open>xs\<close> holds the \<open>n - 1\<close> exchanges made so far.
\<close>

theorem window_length_after_user_turn:
  assumes "1 \<le> max_exchanges self" and "history self = []"
  shows "length (history (append_user (exchanges self xs) user_input)) =
     min (2 * (length xs + 1) - 1) (nat (2 * max_exchanges self))"
proof -
  have "length (history (exchanges self xs)) =
      min (2 * length xs) (nat (2 * max_exchanges self) + 1)"
    using length_history_exchanges [OF assms(1), of xs] assms(2) by simp
  moreover have "1 \<le> max_exchanges (exchanges self xs)"
    using assms(1) by (simp add: exchanges_max_exchanges)
  ultimately show ?thesis
    using length_history_append_user [of "exchanges self xs" user_input]
    by (auto simp: exchanges_max_exchanges min_def)
qed

theorem window_length_after_user_turn_witness:
  "1 \<le> max_exchanges default_bot \<and> history default_bot = []
   \<and> length (history (append_user
         (exchanges default_bot [(ascii ''hi'', ascii ''hello'')]) (ascii ''more''))) = 3"
proof -
  have a: "1 \<le> max_exchanges default_bot"
    by (simp add: default_bot_def init_def DEFAULT_MAX_EXCHANGES_def)
  have b: "history default_bot = []"
    by (simp add: default_bot_def init_def)
  have "nat (2 * max_exchanges default_bot) = 14"
    by (simp add: default_bot_def init_def DEFAULT_MAX_EXCHANGES_def)
  then show ?thesis
    using a b
      window_length_after_user_turn [OF a b, of "[(ascii ''hi'', ascii ''hello'')]"
        "ascii ''more''"]
    by simp
qed

text \<open>
  C4 as stated fails at the first user turn of a default bot: the history holds one
  entry, the user message, which is neither \<open>2 * min 1 7\<close> (the current exchange counted)
  nor \<open>2 * min 0 7\<close> (completed exchanges only).
\<close>

theorem window_length_first_turn_counterexample:
  "max_exchanges default_bot = 7
   \<and> length (history (append_user (exchanges default_bot []) (ascii ''hi''))) = 1
   \<and> length (history (append_user (exchanges default_bot []) (ascii ''hi'')))
       \<noteq> 2 * min 1 (nat (max_exchanges default_bot))
   \<and> length (history (append_user (exchanges default_bot []) (ascii ''hi'')))
       \<noteq> 2 * min 0 (nat (max_exchanges default_bot))"
  by (simp add: default_bot_def init_def DEFAULT_MAX_EXCHANGES_def append_user_def
      slice_from_def Let_def)

text \<open>
  C2, evaluated on the code. With \<open>max_exchanges = 0\<close> the slice of line 129 is
  \<open>history[-0:]\<close>, that is \<open>history[0:]\<close>: nothing is dropped. The stored history keeps every
  earlier entry and the new user message, and the list sent to the model is the system
  message followed by all of them. For a fresh bot and the input \<open>"hi"\<close> the history has
  length 1, not 0, and two messages are sent.
\<close>

theorem zero_window_keeps_everything:
  "history (append_user (self\<lparr>max_exchanges := 0\<rparr>) user_input) =
     history self @ [\<lparr>role = User, content = user_input\<rparr>]
   \<and> messages_to_send (append_user (self\<lparr>max_exchanges := 0\<rparr>) user_input) =
     create_system_prompt self # history self @ [\<lparr>role = User, content = user_input\<rparr>]
   \<and> length (history (append_user (init (ascii ''llama3:8b'') 0) (ascii ''hi''))) = 1
   \<and> messages_to_send (append_user (init (ascii ''llama3:8b'') 0) (ascii ''hi'')) =
     [\<lparr>role = System, content = generic_content\<rparr>, \<lparr>role = User, content = ascii ''hi''\<rparr>]"
  by (simp add: append_user_def messages_to_send_def create_system_prompt_def
      slice_from_def Let_def init_def empty_dict_def dict_is_empty_def)

section \<open>The rollback\<close>

text \<open>
  C6, as the code has it. The rollback is the slice \<open>history[:-1]\<close> of line 144: it drops the
  last entry and cannot fail, and on an empty history it leaves the history empty. The
  error that \<open>get_response\<close> raises after a failed request is the \<open>ConnectionError\<close> built
  from the cause and the model name.
\<close>

theorem rollback_never_fails:
  "history (rollback_last self) = butlast (history self)
   \<and> rollback_last (self\<lparr>history := []\<rparr>) = self\<lparr>history := []\<rparr>
   \<and> (cl (model self) (messages_to_send (append_user self user_input)) = Inl e \<longrightarrow>
        fst (get_response cl self user_input) =
          Inl (ConnectionError (error_head @ e @ error_middle @ model self @ error_tail)))"
  using get_response_fail [of cl self user_input e]
  by (simp add: rollback_last_def slice_upto_minus_one)

theorem rollback_never_fails_witness:
  "failing (ascii ''down'') (model bot_negative)
     (messages_to_send (append_user bot_negative (ascii ''hi''))) = Inl (ascii ''down'')
   \<and> fst (get_response (failing (ascii ''down'')) bot_negative (ascii ''hi'')) =
       Inl (ConnectionError
         (error_head @ ascii ''down'' @ error_middle @ model bot_negative @ error_tail))"
  using rollback_never_fails [of bot_negative "failing (ascii ''down'')" "ascii ''hi''"
      "ascii ''down''"]
  by (simp add: failing_def)

text \<open>
  C6 as stated fails: with \<open>max_exchanges = -1\<close> the truncation leaves an empty history, the
  handler then rolls back on it, and the call ends with the \<open>ConnectionError\<close> of the failed
  request and an unchanged bot; the rollback applied to a fresh bot returns it as it is.
\<close>

theorem rollback_on_empty_counterexample:
  "history (append_user bot_negative (ascii ''hi'')) = []
   \<and> rollback_last (append_user bot_negative (ascii ''hi'')) =
       append_user bot_negative (ascii ''hi'')
   \<and> get_response (failing (ascii ''down'')) bot_negative (ascii ''hi'') =
       (Inl (ConnectionError
          (error_head @ ascii ''down'' @ error_middle @ ascii ''llama3:8b'' @ error_tail)),
        bot_negative)
   \<and> rollback_last default_bot = default_bot"
  by (simp add: bot_negative_def default_bot_def init_def get_response_def append_user_def
      messages_to_send_def rollback_last_def slice_from_def slice_upto_def failing_def Let_def)

section \<open>Splitting, joining and trimming\<close>

lemma py_split_not_Nil: "py_split sep s \<noteq> []"
  by (induction s) (auto split: list.splits)

lemma py_join_Cons:
  "py_join sep (x # xs) = (if xs = [] then x else x @ sep @ py_join sep xs)"
  by (cases xs) simp_all

lemma py_join_split: "py_join [sep] (py_split sep s) = s"
proof (induction s)
  case Nil
  then show ?case by simp
next
  case (Cons c cs)
  show ?case
  proof (cases "c = sep")
    case True
    then show ?thesis using Cons py_split_not_Nil [of sep cs]
      by (simp add: py_join_Cons)
  next
    case False
    obtain p ps where ps: "py_split sep cs = p # ps"
      using py_split_not_Nil [of sep cs] by (cases "py_split sep cs") auto
    then show ?thesis using False Cons
      by (auto simp: py_join_Cons split: if_splits)
  qed
qed

lemma py_split_no_sep: "sep \<notin> set (concat (py_split sep s))"
  by (induction s) (auto split: list.splits)

lemma dropWhile_all_iff: "list_all P (dropWhile P xs) \<longleftrightarrow> list_all P xs"
  by (induction xs) simp_all

lemma py_strip_Nil_iff: "py_strip s = [] \<longleftrightarrow> list_all isspace s"
proof -
  have "py_strip s = [] \<longleftrightarrow> list_all isspace (dropWhile isspace s)"
    by (simp add: py_strip_def list_all_iff)
  then show ?thesis by (simp only: dropWhile_all_iff)
qed

lemma last_dropWhile_kept: "dropWhile P xs \<noteq> [] \<Longrightarrow> last (dropWhile P xs) = last xs"
  by (induction xs) (auto split: if_splits)

lemma py_strip_ends:
  assumes "py_strip s \<noteq> []"
  shows "\<not> isspace (hd (py_strip s)) \<and> \<not> isspace (last (py_strip s))"
proof -
  let ?d = "dropWhile isspace s"
  let ?e = "dropWhile isspace (rev ?d)"
  have e: "?e \<noteq> []" using assms by (simp add: py_strip_def)
  have d: "?d \<noteq> []"
  proof
    assume "?d = []"
    then have "?e = []" by (simp only: rev.simps dropWhile.simps)
    with e show False by simp
  qed
  have "last (py_strip s) = hd ?e"
    using e by (simp only: py_strip_def last_rev)
  moreover have "\<not> isspace (hd ?e)" using e by (rule hd_dropWhile)
  moreover have "hd (py_strip s) = last ?e"
    using e by (simp only: py_strip_def hd_rev)
  moreover have "last ?e = last (rev ?d)" using e by (rule last_dropWhile_kept)
  moreover have "last (rev ?d) = hd ?d" using d by (simp only: last_rev)
  moreover have "\<not> isspace (hd ?d)" using d by (rule hd_dropWhile)
  ultimately show ?thesis by simp
qed

lemma comprehension_as_spec:
  "map py_strip (filter (\<lambda>item. py_strip item \<noteq> []) xs) =
   filter (\<lambda>p. p \<noteq> []) (map py_strip xs)"
  by (induction xs) simp_all


section \<open>The user profile\<close>

lemma spec_context_items_stripped:
  "list_all (\<lambda>item. item \<noteq> [] \<and> \<not> isspace (hd item) \<and> \<not> isspace (last item))
     (spec_context_items raw)"
proof -
  have "item \<noteq> [] \<and> \<not> isspace (hd item) \<and> \<not> isspace (last item)"
    if "item \<in> set (spec_context_items raw)" for item
  proof -
    from that have "item \<in> py_strip ` set (py_split comma raw)" and n: "item \<noteq> []"
      by (simp_all add: spec_context_items_def)
    then obtain p where "item = py_strip p" by blast
    with n show ?thesis using py_strip_ends [of p] by simp
  qed
  then show ?thesis by (simp add: list_all_iff)
qed

text \<open>
  C7. \<open>set_user_profile\<close> replaces the profile by the name as given and the context items
  that the specification describes: the raw string split on commas, each piece trimmed,
  the empty pieces discarded, order and duplicates kept. The split is exact (joining the
  pieces with commas gives the raw string back and no piece holds a comma), and every item
  stored is non-empty and neither begins nor ends with whitespace. For \<open>"Ana"\<close> and
  \<open>"chess, hiking,  reading "\<close> the items are \<open>["chess", "hiking", "reading"]\<close>, and
  \<open>"go, ,tea,, go"\<close> gives \<open>["go", "tea", "go"]\<close>.
\<close>

theorem profile_parsing:
  "set_user_profile self name raw =
     self\<lparr>user_profile :=
       \<lparr>name_entry = Some name, context_items_entry = Some (spec_context_items raw)\<rparr>\<rparr>
   \<and> py_join [comma] (py_split comma raw) = raw
   \<and> comma \<notin> set (concat (py_split comma raw))
   \<and> list_all (\<lambda>item. item \<noteq> [] \<and> \<not> isspace (hd item) \<and> \<not> isspace (last item))
        (spec_context_items raw)
   \<and> context_items_entry (user_profile bot_ana) =
        Some [ascii ''chess'', ascii ''hiking'', ascii ''reading'']
   \<and> name_entry (user_profile bot_ana) = Some (ascii ''Ana'')
   \<and> context_items_entry (user_profile
          (set_user_profile self name (ascii ''go, ,tea,, go''))) =
        Some [ascii ''go'', ascii ''tea'', ascii ''go'']"
proof -
  have a: "set_user_profile self name raw =
     self\<lparr>user_profile :=
       \<lparr>name_entry = Some name, context_items_entry = Some (spec_context_items raw)\<rparr>\<rparr>"
    for self name raw
    by (simp add: set_user_profile_def spec_context_items_def comprehension_as_spec)
  have b: "spec_context_items (ascii ''chess, hiking,  reading '') =
      [ascii ''chess'', ascii ''hiking'', ascii ''reading'']"
    by (simp add: spec_context_items_def ascii_def comma_def py_strip_def isspace_def)
  have c: "spec_context_items (ascii ''go, ,tea,, go'') =
      [ascii ''go'', ascii ''tea'', ascii ''go'']"
    by (simp add: spec_context_items_def ascii_def comma_def py_strip_def isspace_def)
  show ?thesis
    using py_join_split [of comma raw] py_split_no_sep [of comma raw]
      spec_context_items_stripped [of raw]
    by (simp add: a b c bot_ana_def)
qed

section \<open>The system message\<close>

lemma create_system_prompt_set:
  assumes "user_profile self = \<lparr>name_entry = Some name, context_items_entry = Some items\<rparr>"
  shows "content (create_system_prompt self) =
     prompt_head @ name @ prompt_middle @
       (if items = [] then context_placeholder else py_join (ascii '', '') items) @ prompt_tail"
  using assms by (simp add: create_system_prompt_def dict_is_empty_def Let_def)

text \<open>
  C8. \<open>_create_system_prompt\<close> changes nothing and its result depends on the profile alone,
  so two calls with no change of state between them return the same message. With a
  profile set, the content is the fixed text around the name and the context items joined
  by comma and space (the placeholder when there are none): it contains the name verbatim
  and the joined list in its order.
\<close>

theorem system_prompt_determined:
  "(user_profile s1 = user_profile s2 \<longrightarrow> create_system_prompt s1 = create_system_prompt s2)
   \<and> (user_profile self = \<lparr>name_entry = Some name, context_items_entry = Some items\<rparr> \<longrightarrow>
        content (create_system_prompt self) =
          prompt_head @ name @ prompt_middle @
            (if items = [] then context_placeholder else py_join (ascii '', '') items) @
            prompt_tail
        \<and> sublist name (content (create_system_prompt self))
        \<and> sublist (py_join (ascii '', '') items) (content (create_system_prompt self)))"
proof -
  have a: "user_profile s1 = user_profile s2 \<longrightarrow>
      create_system_prompt s1 = create_system_prompt s2"
    by (simp add: create_system_prompt_def)
  have b: "sublist name (content (create_system_prompt self))
      \<and> sublist (py_join (ascii '', '') items) (content (create_system_prompt self))"
    if p: "user_profile self = \<lparr>name_entry = Some name, context_items_entry = Some items\<rparr>"
  proof -
    let ?ctx = "if items = [] then context_placeholder else py_join (ascii '', '') items"
    have c: "content (create_system_prompt self) =
        prompt_head @ name @ (prompt_middle @ ?ctx @ prompt_tail)"
      using create_system_prompt_set [OF p] by simp
    have "sublist name (content (create_system_prompt self))"
      unfolding c sublist_def by blast
    moreover have "sublist (py_join (ascii '', '') items) (content (create_system_prompt self))"
    proof (cases "items = []")
      case True
      then show ?thesis by simp
    next
      case False
      then have "content (create_system_prompt self) =
          (prompt_head @ name @ prompt_middle) @ py_join (ascii '', '') items @ prompt_tail"
        using c by simp
      then show ?thesis unfolding sublist_def by blast
    qed
    ultimately show ?thesis by simp
  qed
  show ?thesis using a b create_system_prompt_set [of self name items] by blast
qed

theorem system_prompt_determined_witness:
  "user_profile default_bot = user_profile bot_negative
   \<and> create_system_prompt default_bot = create_system_prompt bot_negative
   \<and> user_profile bot_ana =
       \<lparr>name_entry = Some (ascii ''Ana''),
        context_items_entry = Some [ascii ''chess'', ascii ''hiking'', ascii ''reading'']\<rparr>
   \<and> content (create_system_prompt bot_ana) =
       prompt_head @ ascii ''Ana'' @ prompt_middle @ ascii ''chess, hiking, reading'' @
       prompt_tail
   \<and> sublist (ascii ''Ana'') (content (create_system_prompt bot_ana))
   \<and> sublist (ascii ''chess, hiking, reading'') (content (create_system_prompt bot_ana))"
proof -
  have a: "user_profile default_bot = user_profile bot_negative"
    by (simp add: default_bot_def bot_negative_def init_def)
  have b: "user_profile bot_ana =
       \<lparr>name_entry = Some (ascii ''Ana''),
        context_items_entry = Some [ascii ''chess'', ascii ''hiking'', ascii ''reading'']\<rparr>"
    by (simp add: bot_ana_def set_user_profile_def ascii_def comma_def py_strip_def isspace_def)
  have c: "py_join (ascii '', '') [ascii ''chess'', ascii ''hiking'', ascii ''reading''] =
      ascii ''chess, hiking, reading''"
    by (simp add: ascii_def)
  have "create_system_prompt default_bot = create_system_prompt bot_negative
    \<and> content (create_system_prompt bot_ana) =
       prompt_head @ ascii ''Ana'' @ prompt_middle @
       py_join (ascii '', '') [ascii ''chess'', ascii ''hiking'', ascii ''reading''] @
       prompt_tail
    \<and> sublist (ascii ''Ana'') (content (create_system_prompt bot_ana))
    \<and> sublist (py_join (ascii '', '') [ascii ''chess'', ascii ''hiking'', ascii ''reading''])
         (content (create_system_prompt bot_ana))"
    using a b
      system_prompt_determined [of default_bot bot_negative bot_ana "ascii ''Ana''"
        "[ascii ''chess'', ascii ''hiking'', ascii ''reading'']"]
    by auto
  then show ?thesis using a b unfolding c by blast
qed

section \<open>Clearing the history\<close>

text \<open>
  C9. \<open>clear_history\<close> leaves the history empty and the profile, the model name and
  \<open>max_exchanges\<close> as they were.
\<close>

theorem clear_history_frame:
  "history (clear_history self) = []
   \<and> user_profile (clear_history self) = user_profile self
   \<and> model (clear_history self) = model self
   \<and> max_exchanges (clear_history self) = max_exchanges self"
  by (simp add: clear_history_def)

section \<open>Once a profile is set\<close>

lemma do_call_keeps_profile:
  "\<not> dict_is_empty (user_profile self) \<Longrightarrow> \<not> dict_is_empty (user_profile (do_call self c))"
  by (cases c)
    (simp_all add: set_user_profile_def dict_is_empty_def get_response_frame clear_history_def)

lemma session_keeps_profile:
  "\<not> dict_is_empty (user_profile self) \<Longrightarrow>
   \<not> dict_is_empty (user_profile (session self calls))"
  unfolding session_def
  by (induction calls arbitrary: self) (simp_all add: do_call_keeps_profile)

lemma personal_not_generic: "prompt_head @ rest \<noteq> generic_content"
  by (simp add: prompt_head_def generic_content_def)

lemma personal_prompt:
  assumes "\<not> dict_is_empty (user_profile self)"
  shows "\<exists>rest. content (create_system_prompt self) = prompt_head @ rest"
  using assms by (simp add: create_system_prompt_def Let_def)

text \<open>
  C10. After \<open>set_user_profile\<close>, whatever the name and the context string, the profile is
  not empty, and it stays so through any later calls of \<open>set_user_profile\<close>,
  \<open>get_response\<close> and \<open>clear_history\<close>: the system message is then the personal prompt and
  never the generic content. With an empty name and a blank context string the personal
  prompt holds the placeholder. A bot whose profile was never set gives the generic
  content.
\<close>

theorem profile_set_never_generic:
  "\<not> dict_is_empty (user_profile (set_user_profile self name raw))
   \<and> \<not> dict_is_empty (user_profile (session (set_user_profile self name raw) calls))
   \<and> content (create_system_prompt (session (set_user_profile self name raw) calls))
        \<noteq> generic_content
   \<and> (\<exists>rest. content (create_system_prompt (session (set_user_profile self name raw) calls))
        = prompt_head @ rest)
   \<and> content (create_system_prompt (set_user_profile self [] (ascii ''  ''))) =
        prompt_head @ [] @ prompt_middle @ context_placeholder @ prompt_tail
   \<and> content (create_system_prompt (init mdl mx)) = generic_content"
proof -
  have a: "\<not> dict_is_empty (user_profile (set_user_profile self name raw))"
    by (simp add: set_user_profile_def dict_is_empty_def)
  then have b: "\<not> dict_is_empty
      (user_profile (session (set_user_profile self name raw) calls))"
    by (rule session_keeps_profile)
  obtain rest where
    c: "content (create_system_prompt (session (set_user_profile self name raw) calls))
        = prompt_head @ rest"
    using personal_prompt [OF b] by blast
  have d: "content (create_system_prompt (set_user_profile self [] (ascii ''  ''))) =
        prompt_head @ [] @ prompt_middle @ context_placeholder @ prompt_tail"
    by (simp add: create_system_prompt_def set_user_profile_def dict_is_empty_def Let_def
        ascii_def comma_def py_strip_def isspace_def)
  have e: "content (create_system_prompt (init mdl mx)) = generic_content"
    by (simp add: create_system_prompt_def init_def empty_dict_def dict_is_empty_def)
  show ?thesis using a b c d e personal_not_generic [of rest] by auto
qed

section \<open>A blank line\<close>

lemma blank_not_quit:
  assumes "py_strip user_text = []"
  shows "\<not> is_quit user_text"
proof
  assume q: "is_quit user_text"
  have w: "list_all isspace user_text" using assms by (simp add: py_strip_Nil_iff)
  from q obtain c cs where t: "user_text = c # cs"
    by (cases user_text) (auto simp: is_quit_def lower_latin_def ascii_def)
  with q have "(if 65 \<le> c \<and> c \<le> 90 then c + 32 else c) = 113"
    by (auto simp: is_quit_def lower_latin_def ascii_def)
  then have "c = 81 \<or> c = 113" by (auto split: if_splits)
  moreover have "isspace c" using w t by simp
  ultimately show False by (auto simp: isspace_def)
qed

text \<open>
  C5, as the code has it. The guard against blank input is in the loop of
  \<open>run_chat_loop\<close>: a line that is empty or all whitespace is skipped before \<open>get_response\<close>
  is called, so the bot is unchanged, nothing is printed and the loop goes on with the
  next line.
\<close>

theorem blank_line_skipped:
  assumes "py_strip user_text = []"
  shows "loop_body cbot user_text cl = Some ([], cbot)
         \<and> run_chat_loop cbot ((user_text, cl) # rest) = run_chat_loop cbot rest"
proof -
  have "py_strip user_text \<noteq> ascii ''/history''"
    using assms by (simp add: ascii_def)
  then have "loop_body cbot user_text cl = Some ([], cbot)"
    using assms blank_not_quit [OF assms] by (simp add: loop_body_def)
  then show ?thesis by (simp split: prod.splits)
qed

theorem blank_line_skipped_witness:
  "py_strip (ascii ''   '') = []
   \<and> loop_body default_bot (ascii ''   '') (answering (ascii ''hello'')) = Some ([], default_bot)
   \<and> run_chat_loop default_bot [(ascii ''   '', answering (ascii ''hello''))] =
       ([SessionEnd], default_bot)"
proof -
  have a: "py_strip (ascii ''   '') = []"
    by (simp add: py_strip_def ascii_def isspace_def)
  show ?thesis
    using a blank_line_skipped [OF a, of default_bot "answering (ascii ''hello'')" "[]"]
    by simp
qed

text \<open>
  C5 as stated fails for \<open>get_response\<close> itself, which has no such guard: called with three
  spaces it stores them as a user message, sends the request and stores the answer.
\<close>

theorem blank_input_get_response_counterexample:
  "py_strip (ascii ''   '') = []
   \<and> get_response (answering (ascii ''hello'')) default_bot (ascii ''   '') =
       (Inr (ascii ''hello''),
        default_bot\<lparr>history := [\<lparr>role = User, content = ascii ''   ''\<rparr>,
                                  \<lparr>role = Assistant, content = ascii ''hello''\<rparr>]\<rparr>)
   \<and> history default_bot = []"
  by (simp add: py_strip_def ascii_def isspace_def get_response_def append_user_def
      messages_to_send_def answering_def slice_from_def Let_def default_bot_def init_def
      DEFAULT_MAX_EXCHANGES_def)

end
